theory Spec2Isabelle
  imports Main
begin

section \<open>Python values, errors and the State/Flow capability surface\<close>

text \<open>
  Exceptions of the source are values of \<open>error\<close>; a function that can raise returns
  \<open>error + 'a\<close>, with \<open>Inl\<close> the exception. \<open>ValueError\<close> carries its message, since
  the source raises it with two different messages; \<open>ImportError\<close> carries the module
  name that could not be imported.
\<close>

datatype error =
    ValueError string
  | TypeError
  | AttributeError
  | ImportError string
  | KeyError
  | LookupError

text \<open>
  Modelled from the spec: \<open>stateclass.DjangoState\<close> is imported by statefields.py but is
  not part of the source given. The spec's State capability set is
  \<open>{ get_value() -> token }\<close>, and a Flow renders its states as (token, label) pairs.
  A state is a class; \<open>cls_name\<close> is its identity, so that two state classes may carry
  the same token and still be different classes.
\<close>

datatype djangostate =
  DjangoState (cls_name: string) (get_value: string) (get_title: string)

text \<open>
  Modelled from the spec: \<open>stateclass.Flow\<close> is not part of the source given. A Flow is
  an ordered, fixed collection of states.
\<close>

datatype flow = Flow (flow_cls_name: string) (states: "djangostate list")

text \<open>
  The Python values that reach the functions of statefields.py. The source tells a
  state \<^emph>\<open>class\<close> (\<open>isinstance(value, type) and issubclass(value, DjangoState)\<close>, in
  \<open>to_python\<close> and \<open>get_prep_value\<close>) from a state \<^emph>\<open>instance\<close>
  (\<open>isinstance(v, DjangoState)\<close>, in \<open>render_options\<close>), so both are values here.
  \<open>PClass\<close> is any other class, \<open>PObj\<close> any other object (an int, a list, ...), each
  carrying what \<open>str()\<close> prints for it; such an object has no attribute \<open>rindex\<close> or
  \<open>get_state\<close> and equals no string.
\<close>

datatype pyval =
    PNone
  | PStr string
  | PStateCls djangostate
  | PStateObj djangostate
  | PFlowCls flow
  | PClass string
  | PObj string

text \<open>\<open>isinstance(value, type) and issubclass(value, DjangoState)\<close>\<close>

fun is_state_class :: "pyval \<Rightarrow> bool" where
  "is_state_class (PStateCls s) = True"
| "is_state_class v = False"

text \<open>\<open>isinstance(v, DjangoState)\<close>: true of an instance of a state class only.\<close>

fun is_state_instance :: "pyval \<Rightarrow> bool" where
  "is_state_instance (PStateObj s) = True"
| "is_state_instance v = False"

text \<open>\<open>isinstance(v, type)\<close> and \<open>isinstance(v, str)\<close>.\<close>

fun is_class :: "pyval \<Rightarrow> bool" where
  "is_class (PStateCls s) = True"
| "is_class (PFlowCls f) = True"
| "is_class (PClass n) = True"
| "is_class v = False"

fun is_str :: "pyval \<Rightarrow> bool" where
  "is_str (PStr s) = True"
| "is_str v = False"

text \<open>
  \<open>str(value)\<close>. A class prints as Python prints a class by default; an instance of a
  state class prints by the default of \<open>object\<close>, the address left out.
\<close>

fun py_str :: "pyval \<Rightarrow> string" where
  "py_str PNone = ''None''"
| "py_str (PStr s) = s"
| "py_str (PStateCls s) = ''<class '' @ [CHR 0x27] @ cls_name s @ [CHR 0x27] @ ''>''"
| "py_str (PStateObj s) = ''<'' @ cls_name s @ '' object>''"
| "py_str (PFlowCls f) = ''<class '' @ [CHR 0x27] @ flow_cls_name f @ [CHR 0x27] @ ''>''"
| "py_str (PClass n) = ''<class '' @ [CHR 0x27] @ n @ [CHR 0x27] @ ''>''"
| "py_str (PObj s) = s"

text \<open>
  Modelled from the spec: \<open>Flow.get_state\<close> is not part of the source given. The spec:
  "map a token to its canonical State value, failing if the token is unknown";
  \<open>get_state(token) -> State, fails with LookupError if token unknown\<close>. The state
  returned is the state class, the representation \<open>to_python\<close> and \<open>get_prep_value\<close>
  recognise as a state.
\<close>

fun get_state :: "flow \<Rightarrow> pyval \<Rightarrow> error + pyval" where
  "get_state fl (PStr t) =
     (case find (\<lambda>s. get_value s = t) (states fl) of
        Some s \<Rightarrow> Inr (PStateCls s)
      | None \<Rightarrow> Inl LookupError)"
| "get_state fl v = Inl LookupError"

text \<open>
  Modelled from the spec: \<open>Flow.state_choices\<close> is not part of the source given. The
  spec: "produce the list of (token, human label) pairs for all its states (insertion
  order preserved)".
\<close>

definition state_choices :: "flow \<Rightarrow> (string \<times> string) list" where
  "state_choices fl = map (\<lambda>s. (get_value s, get_title s)) (states fl)"

text \<open>The tokens a Flow declares.\<close>

definition tokens :: "flow \<Rightarrow> string list" where
  "tokens fl = map get_value (states fl)"

section \<open>The persistable field\<close>

text \<open>
  The attributes of a \<open>StateFlowField\<close> the source reads: \<open>name\<close> and \<open>verbose_name\<close>
  (set by \<open>models.Field.__init__\<close>, \<open>None\<close> when not given), \<open>flow\<close> and \<open>flow_path\<close>
  (what \<open>resolve_flow\<close> returned) and \<open>_flow_kwarg\<close> (the constructor's argument).
  \<open>flow\<close> is a Python value: \<open>load_flow\<close> returns whatever the locator names.
\<close>

record stateflowfield =
  verbose_name :: "string option"
  name :: "string option"
  flow :: pyval
  flow_path :: pyval
  flow_kwarg :: pyval

text \<open>
  The method call \<open>self.flow.get_state(value)\<close>: a Flow class answers it, any other
  value has no such attribute.
\<close>

fun call_get_state :: "pyval \<Rightarrow> pyval \<Rightarrow> error + pyval" where
  "call_get_state (PFlowCls fl) v = get_state fl v"
| "call_get_state x v = Inl AttributeError"

text \<open>
  \<^verbatim>\<open>
  def to_python(self, value):
      if isinstance(value, type) and issubclass(value, DjangoState):
          return value
      return self.flow.get_state(value)
  \<close>
\<close>

definition to_python :: "stateflowfield \<Rightarrow> pyval \<Rightarrow> error + pyval" where
  "to_python self v =
     (if is_state_class v then Inr v else call_get_state (flow self) v)"

text \<open>
  \<^verbatim>\<open>
  def from_db_value(self, value, expression, connection, context):
      return self.to_python(value)
  \<close>
\<close>

definition from_db_value :: "stateflowfield \<Rightarrow> pyval \<Rightarrow> error + pyval" where
  "from_db_value self v = to_python self v"

text \<open>
  \<^verbatim>\<open>
  def get_prep_value(self, value):
      if value is None:
          return None
      elif isinstance(value, type) and issubclass(value, DjangoState):
          return value.get_value()
      else:
          return str(value)
  \<close>
\<close>

definition get_prep_value :: "stateflowfield \<Rightarrow> pyval \<Rightarrow> pyval" where
  "get_prep_value self v =
     (if v = PNone then PNone
      else (case v of
              PStateCls s \<Rightarrow> PStr (get_value s)
            | _ \<Rightarrow> PStr (py_str v)))"

text \<open>\<open>get_internal_type\<close> returns the constant \<open>"CharField"\<close>.\<close>

definition get_internal_type :: "stateflowfield \<Rightarrow> string" where
  "get_internal_type self = ''CharField''"

section \<open>The coercing accessor\<close>

text \<open>
  \<open>obj.__dict__\<close> is a map from attribute names to values, keyed by whatever
  \<open>self.field.name\<close> holds. \<open>Creator\<close> holds the field.
\<close>

type_synonym instance_dict = "string option \<rightharpoonup> pyval"

record creator =
  field :: stateflowfield

text \<open>What \<open>__get__\<close> returns: the accessor itself, or a stored value.\<close>

datatype got = GotSelf creator | GotValue pyval

text \<open>
  \<^verbatim>\<open>
  def __get__(self, obj, type=None):
      if obj is None:
          return self
      return obj.__dict__[self.field.name]
  \<close>
  \<open>obj\<close> is \<open>None\<close> when the attribute is read on the record type itself. A key that is
  not in the dict raises \<open>KeyError\<close>.
\<close>

fun Creator_get :: "creator \<Rightarrow> instance_dict option \<Rightarrow> error + got" where
  "Creator_get self None = Inr (GotSelf self)"
| "Creator_get self (Some d) =
     (case d (name (field self)) of
        None \<Rightarrow> Inl KeyError
      | Some v \<Rightarrow> Inr (GotValue v))"

text \<open>
  \<^verbatim>\<open>
  def __set__(self, obj, value):
      obj.__dict__[self.field.name] = self.field.to_python(value)
  \<close>
  The dict is returned updated; when \<open>to_python\<close> raises, nothing is stored.
\<close>

definition Creator_set :: "creator \<Rightarrow> instance_dict \<Rightarrow> pyval \<Rightarrow> error + instance_dict" where
  "Creator_set self d v =
     (case to_python (field self) v of
        Inl e \<Rightarrow> Inl e
      | Inr c \<Rightarrow> Inr (d(name (field self) \<mapsto> c)))"

section \<open>The flow resolver\<close>

text \<open>
  The Python runtime's import system is outside the repository: \<open>importer\<close> says, for
  each module name, the exception \<open>import_module\<close> raises or the module it returns, a
  module being the map from its attribute names to their values. Importing is an
  effect, so every function that may import threads the list of the module names
  that were asked for.
\<close>

type_synonym pymodule = "string \<rightharpoonup> pyval"
type_synonym importer = "string \<Rightarrow> error + pymodule"

definition import_module ::
  "importer \<Rightarrow> string \<Rightarrow> string list \<Rightarrow> (error + pymodule) \<times> string list" where
  "import_module rt nm log = (rt nm, log @ [nm])"

text \<open>\<open>getattr(mod, cls_name)\<close>: \<open>AttributeError\<close> when the module has no such attribute.\<close>

definition getattr :: "pymodule \<Rightarrow> string \<Rightarrow> error + pyval" where
  "getattr m n = (case m n of None \<Rightarrow> Inl AttributeError | Some v \<Rightarrow> Inr v)"

text \<open>
  \<open>str.rindex\<close> for a one-character substring: the highest index where the character
  occurs, \<open>None\<close> where Python raises \<open>ValueError\<close>.
\<close>

fun rindex :: "string \<Rightarrow> char \<Rightarrow> nat option" where
  "rindex [] c = None"
| "rindex (x # xs) c =
     (case rindex xs c of
        Some i \<Rightarrow> Some (Suc i)
      | None \<Rightarrow> (if x = c then Some 0 else None))"

text \<open>
  \<^verbatim>\<open>
  def load_flow(flow_path):
      dot = flow_path.rindex('.')
      mod_name, cls_name = flow_path[:dot], flow_path[dot+1:]
      mod = import_module(mod_name)
      flow = getattr(mod, cls_name)
      return flow
  \<close>
  A value that is not a string has no \<open>rindex\<close>: \<open>AttributeError\<close>.
\<close>

fun load_flow :: "importer \<Rightarrow> pyval \<Rightarrow> string list \<Rightarrow> (error + pyval) \<times> string list" where
  "load_flow rt (PStr p) log =
     (case rindex p CHR ''.'' of
        None \<Rightarrow> (Inl (ValueError ''substring not found''), log)
      | Some dot \<Rightarrow>
          (let mod_name = take dot p; cls_name = drop (dot + 1) p in
           case import_module rt mod_name log of
             (Inl e, log') \<Rightarrow> (Inl e, log')
           | (Inr m, log') \<Rightarrow> (getattr m cls_name, log')))"
| "load_flow rt v log = (Inl AttributeError, log)"

text \<open>
  \<open>issubclass(flow_name, Flow)\<close>: \<open>TypeError\<close> when the first argument is not a class.
\<close>

fun issubclass_Flow :: "pyval \<Rightarrow> error + bool" where
  "issubclass_Flow (PFlowCls f) = Inr True"
| "issubclass_Flow (PStateCls s) = Inr False"
| "issubclass_Flow (PClass n) = Inr False"
| "issubclass_Flow v = Inl TypeError"

text \<open>
  \<^verbatim>\<open>
  def resolve_flow(flow_name):
      try:
          flow_is_cls = issubclass(flow_name, Flow)
      except:
          flow_is_cls = False
      if flow_is_cls:
          return flow_name, str(flow_name)
      else:
          return load_flow(flow_name), flow_name
  \<close>
\<close>

definition resolve_flow ::
  "importer \<Rightarrow> pyval \<Rightarrow> string list \<Rightarrow> (error + pyval \<times> pyval) \<times> string list" where
  "resolve_flow rt flow_name log =
     (let flow_is_cls = (case issubclass_Flow flow_name of Inl e \<Rightarrow> False | Inr b \<Rightarrow> b) in
      if flow_is_cls then (Inr (flow_name, PStr (py_str flow_name)), log)
      else (case load_flow rt flow_name log of
              (Inl e, log') \<Rightarrow> (Inl e, log')
            | (Inr fl, log') \<Rightarrow> (Inr (fl, flow_name), log')))"

text \<open>
  \<^verbatim>\<open>
  def __init__(self, verbose_name=None, name=None, flow=None, **kwargs):
      if flow is None:
          raise ValueError("StateFlowField need to have defined flow")
      self._flow_kwarg = flow  # for deconstruct
      self.flow, self.flow_path = resolve_flow(flow)
      models.Field.__init__(self, verbose_name, name, **kwargs)
  \<close>
  \<open>models.Field.__init__\<close> belongs to the host framework; of what it does, the model
  keeps that it stores \<open>verbose_name\<close> and \<open>name\<close>.
\<close>

definition StateFlowField_init ::
  "importer \<Rightarrow> string option \<Rightarrow> string option \<Rightarrow> pyval \<Rightarrow> string list
     \<Rightarrow> (error + stateflowfield) \<times> string list" where
  "StateFlowField_init rt vn n fl log =
     (if fl = PNone then (Inl (ValueError ''StateFlowField need to have defined flow''), log)
      else (case resolve_flow rt fl log of
              (Inl e, log') \<Rightarrow> (Inl e, log')
            | (Inr (f, path), log') \<Rightarrow>
                (Inr \<lparr>verbose_name = vn, name = n, flow = f, flow_path = path,
                       flow_kwarg = fl\<rparr>, log')))"

section \<open>Choices and the widget\<close>

text \<open>The method call \<open>self.flow.state_choices()\<close>.\<close>

fun call_state_choices :: "pyval \<Rightarrow> error + (string \<times> string) list" where
  "call_state_choices (PFlowCls fl) = Inr (state_choices fl)"
| "call_state_choices x = Inl AttributeError"

datatype widget_cls = StateWidget

record choicefield =
  choices :: "(pyval \<times> string) list"
  widget :: widget_cls

text \<open>
  \<^verbatim>\<open>
  def formfield(self, **kwargs):
      choices = [(None, '----')] + self.flow.state_choices()
      return forms.ChoiceField(choices=choices, widget=StateWidget)
  \<close>
\<close>

definition formfield :: "stateflowfield \<Rightarrow> error + choicefield" where
  "formfield self =
     (case call_state_choices (flow self) of
        Inl e \<Rightarrow> Inl e
      | Inr cs \<Rightarrow>
          Inr \<lparr>choices = (PNone, ''----'') # map (\<lambda>(t, l). (PStr t, l)) cs,
                widget = StateWidget\<rparr>)"

text \<open>
  \<open>django.utils.html.escape\<close> replaces the five characters \<open>&\<close>, \<open><\<close>, \<open>>\<close>, \<open>"\<close> and
  \<open>'\<close>; \<open>conditional_escape\<close> is \<open>escape\<close> on a string that is not marked safe, and
  \<open>force_unicode\<close> is \<open>str\<close> on the values here. All three are the host framework's.
\<close>

fun escape_char :: "char \<Rightarrow> string" where
  "escape_char c =
     (if c = CHR ''&'' then ''&amp;''
      else if c = CHR ''<'' then ''&lt;''
      else if c = CHR ''>'' then ''&gt;''
      else if c = CHR 0x22 then ''&quot;''
      else if c = CHR 0x27 then ''&#39;''
      else [c])"

definition escape :: "string \<Rightarrow> string" where
  "escape s = concat (map escape_char s)"

definition conditional_escape :: "string \<Rightarrow> string" where
  "conditional_escape s = escape s"

definition force_unicode :: "pyval \<Rightarrow> string" where
  "force_unicode v = py_str v"

text \<open>\<open>v.get_value()\<close> on an instance of a state class answers with the class's token.\<close>

fun obj_get_value :: "pyval \<Rightarrow> string list" where
  "obj_get_value (PStateObj s) = [get_value s]"
| "obj_get_value v = []"

text \<open>
  \<^verbatim>\<open>
  selected_choices = [
      v.get_value()
      for v in selected_choices if isinstance(v, DjangoState)]
  selected_choices = set([force_unicode(v) for v in selected_choices])
  \<close>
\<close>

definition normalize_selected :: "pyval list \<Rightarrow> string set" where
  "normalize_selected selected_choices =
     set (map (\<lambda>t. force_unicode (PStr t))
            (concat (map obj_get_value (filter is_state_instance selected_choices))))"

text \<open>
  \<^verbatim>\<open>
  selected_html = (option_value in selected_choices) \
      and ' selected="selected"' or ''
  \<close>
\<close>

definition selected_html :: "string set \<Rightarrow> string \<Rightarrow> string" where
  \<open>selected_html sel option_value =
     (if option_value \<in> sel then '' selected="selected"'' else [])\<close>

text \<open>
  \<^verbatim>\<open>
  def render_option(option_value, option_label):
      option_value = force_unicode(option_value)
      selected_html = ...
      return '<option value="%s"%s>%s</option>' % (
          escape(option_value), selected_html,
          conditional_escape(force_unicode(option_label)))
  \<close>
\<close>

definition render_option :: "string set \<Rightarrow> pyval \<Rightarrow> string \<Rightarrow> string" where
  \<open>render_option sel option_value option_label =
     (let ov = force_unicode option_value in
      ''<option value="'' @ escape ov @ ''"'' @ selected_html sel ov @ ''>''
        @ conditional_escape (force_unicode (PStr option_label)) @ ''</option>'')\<close>

text \<open>
  An entry of the choices is a plain option, or a group when its label is a list or a
  tuple of options.
\<close>

datatype option_label = Label string | Group "(pyval \<times> string) list"

fun render_entry :: "string set \<Rightarrow> pyval \<times> option_label \<Rightarrow> string list" where
  \<open>render_entry sel (option_value, Group opts) =
     [''<optgroup label="'' @ escape (force_unicode option_value) @ ''">'']
       @ map (\<lambda>(v, l). render_option sel v l) opts
       @ [''</optgroup>'']\<close>
| \<open>render_entry sel (option_value, Label l) = [render_option sel option_value l]\<close>

text \<open>\<open>'\n'.join(output)\<close>\<close>

fun join :: "string \<Rightarrow> string list \<Rightarrow> string" where
  "join sep [] = []"
| "join sep [x] = x"
| "join sep (x # y # ys) = x @ sep @ join sep (y # ys)"

text \<open>
  \<open>render_options(self, choices, selected_choices)\<close>, the widget's own choices being
  \<open>self_choices\<close>: the options of \<open>chain(self.choices, choices)\<close>, one line each.
\<close>

definition render_options ::
  "(pyval \<times> option_label) list \<Rightarrow> (pyval \<times> option_label) list \<Rightarrow> pyval list \<Rightarrow> string" where
  "render_options self_choices chs selected_choices =
     (let sel = normalize_selected selected_choices in
      join [CHR 0x0A] (concat (map (render_entry sel) (self_choices @ chs))))"

section \<open>A concrete flow, field and runtime\<close>

text \<open>
  The flow of the spec's examples, with states \<open>Draft("draft", "Draft")\<close> and
  \<open>Published("published", "Published")\<close>; \<open>archived\<close> is a state class of some other
  flow. The runtime knows one module, \<open>myapp.flows\<close>, whose attribute \<open>ArticleFlow\<close> is
  the flow.
\<close>

definition draft :: djangostate where
  "draft = DjangoState ''Draft'' ''draft'' ''Draft''"

definition published :: djangostate where
  "published = DjangoState ''Published'' ''published'' ''Published''"

definition archived :: djangostate where
  "archived = DjangoState ''Archived'' ''archived'' ''Archived''"

definition article_flow :: flow where
  "article_flow = Flow ''ArticleFlow'' [draft, published]"

definition example_field :: stateflowfield where
  "example_field =
     \<lparr>verbose_name = None, name = Some ''state'', flow = PFlowCls article_flow,
      flow_path = PStr (py_str (PFlowCls article_flow)), flow_kwarg = PFlowCls article_flow\<rparr>"

definition example_runtime :: importer where
  "example_runtime nm =
     (if nm = ''myapp.flows'' then Inr [''ArticleFlow'' \<mapsto> PFlowCls article_flow]
      else Inl (ImportError nm))"

text \<open>
  A flow in which two state classes carry the same token, and a field on it.
\<close>

definition pending :: djangostate where
  "pending = DjangoState ''Pending'' ''open'' ''Pending''"

definition reopened :: djangostate where
  "reopened = DjangoState ''Reopened'' ''open'' ''Reopened''"

definition ticket_flow :: flow where
  "ticket_flow = Flow ''TicketFlow'' [pending, reopened]"

definition ticket_field :: stateflowfield where
  "ticket_field =
     \<lparr>verbose_name = None, name = Some ''state'', flow = PFlowCls ticket_flow,
      flow_path = PStr (py_str (PFlowCls ticket_flow)), flow_kwarg = PFlowCls ticket_flow\<rparr>"

text \<open>
  What the spec's global invariant allows in a record's slot: \<open>None\<close>, or a state of the
  field's Flow.
\<close>

definition slot_value_ok :: "flow \<Rightarrow> pyval \<Rightarrow> bool" where
  "slot_value_ok fl c = (c = PNone \<or> c \<in> set (map PStateCls (states fl)))"

text \<open>
  The label the spec gives the unset choice, an em dash on each side of \<open>unset\<close>, in
  UTF-8.
\<close>

definition unset_label_spec :: string where
  "unset_label_spec =
     [CHR 0xE2, CHR 0x80, CHR 0x94] @ '' unset '' @ [CHR 0xE2, CHR 0x80, CHR 0x94]"

section \<open>Facts about the capability surface and \<open>rindex\<close>\<close>

lemmas ex_defs =
  draft_def published_def archived_def article_flow_def example_field_def example_runtime_def

lemma find_unique:
  "s \<in> set xs \<Longrightarrow> \<forall>s' \<in> set xs. f s' = f s \<longrightarrow> s' = s \<Longrightarrow>
     find (\<lambda>x. f x = f s) xs = Some s"
  by (induction xs) auto

lemma get_state_Inr:
  "get_state fl v = Inr c \<Longrightarrow>
     \<exists>s. c = PStateCls s \<and> s \<in> set (states fl) \<and> v = PStr (get_value s)"
  by (cases v) (auto split: option.splits simp: find_Some_iff)

lemma get_state_unknown:
  "(\<And>t. v = PStr t \<Longrightarrow> t \<notin> set (tokens fl)) \<Longrightarrow> get_state fl v = Inl LookupError"
  by (cases v) (auto split: option.splits simp: find_Some_iff tokens_def)

lemma get_state_known:
  "t \<in> set (tokens fl) \<Longrightarrow> \<exists>s. get_state fl (PStr t) = Inr (PStateCls s) \<and> s \<in> set (states fl) \<and> get_value s = t"
  by (auto split: option.splits simp: find_None_iff find_Some_iff tokens_def)

lemma rindex_None: "rindex p c = None \<longleftrightarrow> c \<notin> set p"
  by (induction p) (auto split: option.splits)

lemma rindex_Some:
  "rindex p c = Some d \<longleftrightarrow> d < length p \<and> p ! d = c \<and> c \<notin> set (drop (Suc d) p)"
proof (induction p arbitrary: d)
  case Nil show ?case by simp
next
  case (Cons x xs)
  show ?case
  proof (cases "rindex xs c")
    case None
    then have nin: "c \<notin> set xs" by (simp add: rindex_None)
    show ?thesis
    proof (cases d)
      case 0 with None nin show ?thesis by auto
    next
      case (Suc k)
      with None nin show ?thesis by (auto dest: nth_mem)
    qed
  next
    case (Some i)
    then have i: "i < length xs" "xs ! i = c" "c \<notin> set (drop (Suc i) xs)"
      using Cons.IH by auto
    show ?thesis
    proof (cases d)
      case 0
      with Some i show ?thesis by (auto dest: nth_mem)
    next
      case (Suc k)
      with Some Cons.IH[of k] show ?thesis by auto
    qed
  qed
qed

lemma load_flow_dotted:
  assumes "d < length p" and "p ! d = CHR ''.''" and "CHR ''.'' \<notin> set (drop (Suc d) p)"
  shows "load_flow rt (PStr p) log =
           ((case rt (take d p) of
               Inl e \<Rightarrow> Inl e
             | Inr m \<Rightarrow> getattr m (drop (Suc d) p)), log @ [take d p])"
proof -
  have "rindex p CHR ''.'' = Some d" using assms by (simp add: rindex_Some)
  then show ?thesis by (simp add: import_module_def split: sum.splits)
qed

lemma resolve_flow_not_flow_class:
  assumes "\<And>fl. r \<noteq> PFlowCls fl"
  shows "resolve_flow rt r log =
           (case load_flow rt r log of
              (Inl e, log') \<Rightarrow> (Inl e, log')
            | (Inr v, log') \<Rightarrow> (Inr (v, r), log'))"
  using assms by (cases r) (auto simp: resolve_flow_def)

lemma normalize_selected_classes:
  "normalize_selected (map PStateCls ss) = {}"
  by (induction ss) (simp_all add: normalize_selected_def)

section \<open>The coercing accessor and the slot invariant\<close>

text \<open>
  C1, as the spec states it: after an assignment through the accessor, the slot holds
  \<open>None\<close> or a state of the field's Flow. It fails: \<open>to_python\<close> returns every state
  class unchanged, without asking the Flow, so the state class \<open>archived\<close>, which
  \<open>article_flow\<close> does not declare, is stored as it is.
\<close>

theorem C1_counterexample:
  "Creator_set \<lparr>field = example_field\<rparr> Map.empty (PStateCls archived)
     = Inr (Map.empty(Some ''state'' \<mapsto> PStateCls archived))
   \<and> \<not> slot_value_ok article_flow (PStateCls archived)"
  by (simp add: Creator_set_def to_python_def slot_value_ok_def ex_defs)

text \<open>
  C1, amended: after every assignment through the accessor that returns, the value
  stored in the slot is \<open>None\<close>, or a state of the field's Flow, or the state class
  that was assigned, stored as it is whether or not the Flow declares it. It is never
  a string, so never the raw token that was assigned, and never another value that
  is not a state. No other slot of the record changes.
\<close>

theorem C1_slot_none_or_state:
  assumes "flow (field cr) = PFlowCls fl" and "Creator_set cr d v = Inr d'"
  shows "\<exists>c. d' = d(name (field cr) \<mapsto> c)
           \<and> (slot_value_ok fl c \<or> (is_state_class v \<and> c = v))
           \<and> \<not> is_str c
           \<and> (c = PNone \<or> is_state_class c)"
proof (cases "is_state_class v")
  case True
  then obtain s where "v = PStateCls s" by (cases v) auto
  with assms(2) show ?thesis by (auto simp: Creator_set_def to_python_def)
next
  case False
  with assms obtain c where g: "get_state fl v = Inr c"
    and d': "d' = d(name (field cr) \<mapsto> c)"
    by (auto simp: Creator_set_def to_python_def split: sum.splits)
  from get_state_Inr[OF g] obtain s where "c = PStateCls s" "s \<in> set (states fl)" by auto
  with d' show ?thesis by (auto simp: slot_value_ok_def)
qed

theorem C1_slot_none_or_state_witness:
  "flow (field \<lparr>field = example_field\<rparr>) = PFlowCls article_flow
   \<and> Creator_set \<lparr>field = example_field\<rparr> Map.empty (PStr ''draft'')
       = Inr (Map.empty(Some ''state'' \<mapsto> PStateCls draft))
   \<and> slot_value_ok article_flow (PStateCls draft)
   \<and> (\<exists>c. Map.empty(Some ''state'' \<mapsto> PStateCls draft)
            = Map.empty(name (field \<lparr>field = example_field\<rparr>) \<mapsto> c)
          \<and> (slot_value_ok article_flow c \<or> (is_state_class (PStr ''draft'') \<and> c = PStr ''draft''))
          \<and> \<not> is_str c
          \<and> (c = PNone \<or> is_state_class c))"
proof -
  have a: "flow (field \<lparr>field = example_field\<rparr>) = PFlowCls article_flow"
    by (simp add: ex_defs)
  have h: "Creator_set \<lparr>field = example_field\<rparr> Map.empty (PStr ''draft'')
     = Inr (Map.empty(Some ''state'' \<mapsto> PStateCls draft))"
    by (simp add: Creator_set_def to_python_def ex_defs)
  have k: "slot_value_ok article_flow (PStateCls draft)"
    by (simp add: slot_value_ok_def ex_defs)
  from C1_slot_none_or_state[OF a h] a h k show ?thesis by blast
qed

text \<open>
  C2: on a write the accessor stores \<open>field.to_python(raw_value)\<close> under the field's
  name, and raises what \<open>to_python\<close> raises; a read from an instance returns the value
  stored under the field's name as it is, whatever it is and whatever the field's
  flow is; a read on the record type itself (no instance) returns the accessor.
\<close>

theorem C2_accessor:
  "(to_python (field cr) v = Inr c \<longrightarrow>
      Creator_set cr d v = Inr (d(name (field cr) \<mapsto> c)) \<and>
      Creator_get cr (Some (d(name (field cr) \<mapsto> c))) = Inr (GotValue c))
   \<and> (to_python (field cr) v = Inl e \<longrightarrow> Creator_set cr d v = Inl e)
   \<and> (d (name (field cr)) = Some x \<longrightarrow> Creator_get cr (Some d) = Inr (GotValue x))
   \<and> Creator_get cr None = Inr (GotSelf cr)"
  by (simp add: Creator_set_def)

theorem C2_accessor_witness:
  "to_python (field \<lparr>field = example_field\<rparr>) (PStr ''draft'') = Inr (PStateCls draft)
   \<and> to_python (field \<lparr>field = example_field\<rparr>) (PStr ''bogus'') = Inl LookupError
   \<and> [Some ''state'' \<mapsto> PStr ''raw''] (name (field \<lparr>field = example_field\<rparr>)) = Some (PStr ''raw'')
   \<and> Creator_set \<lparr>field = example_field\<rparr> Map.empty (PStr ''draft'')
        = Inr [Some ''state'' \<mapsto> PStateCls draft]
   \<and> Creator_get \<lparr>field = example_field\<rparr> (Some [Some ''state'' \<mapsto> PStateCls draft])
        = Inr (GotValue (PStateCls draft))
   \<and> Creator_set \<lparr>field = example_field\<rparr> Map.empty (PStr ''bogus'') = Inl LookupError
   \<and> Creator_get \<lparr>field = example_field\<rparr> (Some [Some ''state'' \<mapsto> PStr ''raw''])
        = Inr (GotValue (PStr ''raw''))
   \<and> Creator_get \<lparr>field = example_field\<rparr> None = Inr (GotSelf \<lparr>field = example_field\<rparr>)"
proof -
  have a: "to_python (field \<lparr>field = example_field\<rparr>) (PStr ''draft'') = Inr (PStateCls draft)"
    by (simp add: to_python_def ex_defs)
  have b: "to_python (field \<lparr>field = example_field\<rparr>) (PStr ''bogus'') = Inl LookupError"
    by (simp add: to_python_def ex_defs)
  have c: "[Some ''state'' \<mapsto> PStr ''raw''] (name (field \<lparr>field = example_field\<rparr>)) = Some (PStr ''raw'')"
    by (simp add: ex_defs)
  have n: "name (field \<lparr>field = example_field\<rparr>) = Some ''state''"
    by (simp add: ex_defs)
  from C2_accessor[of "\<lparr>field = example_field\<rparr>" "PStr ''draft''" "PStateCls draft" Map.empty LookupError "PStr ''raw''"]
       C2_accessor[of "\<lparr>field = example_field\<rparr>" "PStr ''bogus''" "PStateCls draft" Map.empty LookupError "PStr ''raw''"]
       C2_accessor[of "\<lparr>field = example_field\<rparr>" "PStr ''bogus''" "PStateCls draft" "[Some ''state'' \<mapsto> PStr ''raw'']" LookupError "PStr ''raw''"]
       a b c n
  show ?thesis by simp
qed

section \<open>Inbound and outbound conversion\<close>

text \<open>
  C3, as the spec states it: for every state \<open>s\<close> declared in a field's Flow, the
  inbound conversion of the outbound conversion of \<open>s\<close> is \<open>s\<close>. It fails where two
  states of the Flow carry one token: the outbound conversion keeps the token only,
  and the Flow maps the token back to the first state that carries it.
\<close>

theorem C3_counterexample:
  "reopened \<in> set (states ticket_flow)
   \<and> flow ticket_field = PFlowCls ticket_flow
   \<and> get_prep_value ticket_field (PStateCls reopened) = PStr ''open''
   \<and> to_python ticket_field (get_prep_value ticket_field (PStateCls reopened))
       = Inr (PStateCls pending)
   \<and> PStateCls pending \<noteq> PStateCls reopened"
  by (simp add: get_prep_value_def to_python_def pending_def reopened_def ticket_flow_def
      ticket_field_def)

text \<open>
  C3, amended: for every state \<open>s\<close> declared in a field's Flow such that no other
  state of that Flow carries the token of \<open>s\<close>, the outbound conversion
  \<open>get_prep_value\<close> gives the token of \<open>s\<close>, and the inbound conversion \<open>to_python\<close> of
  that token gives \<open>s\<close> again.
\<close>

theorem C3_round_trip_unique_token:
  assumes "flow self = PFlowCls fl" and "s \<in> set (states fl)"
    and "\<forall>s' \<in> set (states fl). get_value s' = get_value s \<longrightarrow> s' = s"
  shows "get_prep_value self (PStateCls s) = PStr (get_value s)
         \<and> to_python self (get_prep_value self (PStateCls s)) = Inr (PStateCls s)"
  using assms(1) find_unique[OF assms(2,3)]
  by (simp add: get_prep_value_def to_python_def)

theorem C3_round_trip_unique_token_witness:
  "flow example_field = PFlowCls article_flow \<and> published \<in> set (states article_flow)
   \<and> get_prep_value example_field (PStateCls published) = PStr ''published''
   \<and> to_python example_field (get_prep_value example_field (PStateCls published))
       = Inr (PStateCls published)"
proof -
  have a: "flow example_field = PFlowCls article_flow" by (simp add: ex_defs)
  have b: "published \<in> set (states article_flow)" by (simp add: ex_defs)
  have c: "\<forall>s' \<in> set (states article_flow). get_value s' = get_value published \<longrightarrow> s' = published"
    by (simp add: ex_defs)
  have d: "get_value published = ''published''" by (simp add: ex_defs)
  have r: "get_prep_value example_field (PStateCls published) = PStr (get_value published)
         \<and> to_python example_field (get_prep_value example_field (PStateCls published))
             = Inr (PStateCls published)"
    by (rule C3_round_trip_unique_token[OF a b c])
  have e: "get_prep_value example_field (PStateCls published) = PStr ''published''"
    using conjunct1[OF r] d by simp
  show ?thesis using a b e conjunct2[OF r] by blast
qed

text \<open>
  C4: inbound conversion is idempotent. \<open>to_python\<close> returns a state class \<open>s\<close> as it
  is, whatever the field's flow; and for a token \<open>t\<close> the field's Flow declares,
  \<open>to_python t\<close> returns a value on which \<open>to_python\<close> returns that same value.
\<close>

theorem C4_idempotent:
  assumes "flow self = PFlowCls fl" and "t \<in> set (tokens fl)"
  shows "to_python self (PStateCls s) = Inr (PStateCls s)
         \<and> (\<exists>c. to_python self (PStr t) = Inr c \<and> to_python self c = Inr c)"
  using assms get_state_known[of t fl] by (auto simp: to_python_def)

theorem C4_idempotent_witness:
  "flow example_field = PFlowCls article_flow \<and> ''draft'' \<in> set (tokens article_flow)
   \<and> to_python example_field (PStateCls archived) = Inr (PStateCls archived)
   \<and> to_python example_field (PStr ''draft'') = Inr (PStateCls draft)
   \<and> (\<exists>c. to_python example_field (PStr ''draft'') = Inr c \<and> to_python example_field c = Inr c)"
proof -
  have a: "flow example_field = PFlowCls article_flow" by (simp add: ex_defs)
  have b: "''draft'' \<in> set (tokens article_flow)" by (simp add: tokens_def ex_defs)
  have c: "to_python example_field (PStr ''draft'') = Inr (PStateCls draft)"
    by (simp add: to_python_def ex_defs)
  from C4_idempotent[OF a b, of archived] a b c show ?thesis by simp
qed

text \<open>
  C5: for every value that is not a state class and not a token declared by the
  field's Flow, \<open>to_python\<close> raises the lookup error of \<open>Flow.get_state\<close>; so does the
  load path \<open>from_db_value\<close>, and so does a write through the accessor, which stores
  nothing. No default value is returned in its place.
\<close>

theorem C5_unknown_value_raises:
  assumes "flow self = PFlowCls fl" and "\<not> is_state_class v"
    and "v \<notin> set (map PStr (tokens fl))"
  shows "to_python self v = Inl LookupError
         \<and> from_db_value self v = Inl LookupError
         \<and> Creator_set \<lparr>field = self\<rparr> d v = Inl LookupError"
proof -
  have "get_state fl v = Inl LookupError"
    using assms(3) by (intro get_state_unknown) auto
  with assms(1,2) show ?thesis
    by (simp add: to_python_def from_db_value_def Creator_set_def)
qed

theorem C5_unknown_value_raises_witness:
  "flow example_field = PFlowCls article_flow
   \<and> \<not> is_state_class (PStr ''not-a-real-token'')
   \<and> PStr ''not-a-real-token'' \<notin> set (map PStr (tokens article_flow))
   \<and> to_python example_field (PStr ''not-a-real-token'') = Inl LookupError
   \<and> from_db_value example_field (PStr ''not-a-real-token'') = Inl LookupError
   \<and> Creator_set \<lparr>field = example_field\<rparr> [Some ''state'' \<mapsto> PStateCls draft]
        (PStr ''not-a-real-token'') = Inl LookupError"
proof -
  have a: "flow example_field = PFlowCls article_flow" by (simp add: ex_defs)
  have b: "\<not> is_state_class (PStr ''not-a-real-token'')" by simp
  have c: "PStr ''not-a-real-token'' \<notin> set (map PStr (tokens article_flow))"
    by (simp add: tokens_def ex_defs)
  from C5_unknown_value_raises[OF a b c, of "[Some ''state'' \<mapsto> PStateCls draft]"] a b c
  show ?thesis by simp
qed

section \<open>Field construction and the flow resolver\<close>

text \<open>
  C6: constructing a field with \<open>flow=None\<close> raises \<open>ValueError\<close> with the message of
  the constructor's own check, whatever the runtime and the other arguments, and the
  list of imports is what it was: no flow was resolved.
\<close>

theorem C6_missing_flow:
  "StateFlowField_init rt vn n PNone log
     = (Inl (ValueError ''StateFlowField need to have defined flow''), log)"
  by (simp add: StateFlowField_init_def)

text \<open>
  C7: a reference that is a Flow class is returned as it is, paired with its string
  representation, and nothing is imported. A locator string whose last \<open>.\<close> is at
  index \<open>d\<close> is split there; the part before is imported, the part after is fetched
  from the module, and the value fetched is returned paired with the locator string.
  The exception of a failed import is returned as the runtime raised it, a missing
  attribute is \<open>AttributeError\<close>, and the field's constructor returns the exception
  \<open>resolve_flow\<close> raised.
\<close>

theorem C7_resolve_flow:
  "resolve_flow rt (PFlowCls fl) log = (Inr (PFlowCls fl, PStr (py_str (PFlowCls fl))), log)
   \<and> (d < length p \<and> p ! d = CHR ''.'' \<and> CHR ''.'' \<notin> set (drop (Suc d) p) \<longrightarrow>
        resolve_flow rt (PStr p) log =
          ((case rt (take d p) of
              Inl e \<Rightarrow> Inl e
            | Inr m \<Rightarrow> (case m (drop (Suc d) p) of
                          None \<Rightarrow> Inl AttributeError
                        | Some v \<Rightarrow> Inr (v, PStr p))),
           log @ [take d p]))
   \<and> (r \<noteq> PNone \<and> resolve_flow rt r log = (Inl e, log') \<longrightarrow>
        StateFlowField_init rt vn n r log = (Inl e, log'))"
proof (intro conjI impI)
  show "resolve_flow rt (PFlowCls fl) log
          = (Inr (PFlowCls fl, PStr (py_str (PFlowCls fl))), log)"
    by (simp add: resolve_flow_def)
next
  assume a: "d < length p \<and> p ! d = CHR ''.'' \<and> CHR ''.'' \<notin> set (drop (Suc d) p)"
  then have "load_flow rt (PStr p) log =
           ((case rt (take d p) of
               Inl e \<Rightarrow> Inl e
             | Inr m \<Rightarrow> getattr m (drop (Suc d) p)), log @ [take d p])"
    by (intro load_flow_dotted) auto
  then show "resolve_flow rt (PStr p) log =
          ((case rt (take d p) of
              Inl e \<Rightarrow> Inl e
            | Inr m \<Rightarrow> (case m (drop (Suc d) p) of
                          None \<Rightarrow> Inl AttributeError
                        | Some v \<Rightarrow> Inr (v, PStr p))),
           log @ [take d p])"
    by (simp add: resolve_flow_not_flow_class getattr_def split: sum.splits option.splits)
next
  assume "r \<noteq> PNone \<and> resolve_flow rt r log = (Inl e, log')"
  then show "StateFlowField_init rt vn n r log = (Inl e, log')"
    by (simp add: StateFlowField_init_def)
qed

theorem C7_resolve_flow_witness:
  "(11::nat) < length ''myapp.flows.ArticleFlow''
   \<and> ''myapp.flows.ArticleFlow'' ! 11 = CHR ''.''
   \<and> CHR ''.'' \<notin> set (drop (Suc 11) ''myapp.flows.ArticleFlow'')
   \<and> resolve_flow example_runtime (PStr ''myapp.flows.ArticleFlow'') []
       = (Inr (PFlowCls article_flow, PStr ''myapp.flows.ArticleFlow''), [''myapp.flows''])
   \<and> resolve_flow example_runtime (PFlowCls article_flow) []
       = (Inr (PFlowCls article_flow, PStr (py_str (PFlowCls article_flow))), [])
   \<and> PStr ''other.X'' \<noteq> PNone
   \<and> resolve_flow example_runtime (PStr ''other.X'') [] = (Inl (ImportError ''other''), [''other''])
   \<and> StateFlowField_init example_runtime None (Some ''state'') (PStr ''other.X'') []
       = (Inl (ImportError ''other''), [''other''])"
proof -
  have h: "(11::nat) < length ''myapp.flows.ArticleFlow''
     \<and> ''myapp.flows.ArticleFlow'' ! 11 = CHR ''.''
     \<and> CHR ''.'' \<notin> set (drop (Suc 11) ''myapp.flows.ArticleFlow'')"
    by simp
  have k: "resolve_flow example_runtime (PStr ''other.X'') []
       = (Inl (ImportError ''other''), [''other''])"
    by (simp add: resolve_flow_def import_module_def example_runtime_def Let_def)
  have t: "take 11 ''myapp.flows.ArticleFlow'' = ''myapp.flows''"
    "drop (Suc 11) ''myapp.flows.ArticleFlow'' = ''ArticleFlow''"
    by simp_all
  note c7 = C7_resolve_flow[of example_runtime article_flow "[]" 11 "''myapp.flows.ArticleFlow''"
      "PStr ''other.X''" "ImportError ''other''" "[''other'']" None "Some ''state''"]
  from c7 h have 1: "resolve_flow example_runtime (PStr ''myapp.flows.ArticleFlow'') []
       = (Inr (PFlowCls article_flow, PStr ''myapp.flows.ArticleFlow''), [''myapp.flows''])"
    unfolding t by (simp add: example_runtime_def)
  from c7 have 2: "resolve_flow example_runtime (PFlowCls article_flow) []
       = (Inr (PFlowCls article_flow, PStr (py_str (PFlowCls article_flow))), [])"
    by blast
  from c7 k have 3: "StateFlowField_init example_runtime None (Some ''state'') (PStr ''other.X'') []
       = (Inl (ImportError ''other''), [''other''])"
    by simp
  show ?thesis using h 1 2 3 k by simp
qed

text \<open>
  C10: a reference that is a string with no \<open>.\<close> in it makes the class test raise
  \<open>TypeError\<close>, which is swallowed; \<open>load_flow\<close> then raises the \<open>ValueError\<close> of
  \<open>rindex\<close>, not the constructor's own \<open>ValueError\<close>, and the constructor returns it. A
  reference that is neither a class nor a string takes the same path: the class test
  raises \<open>TypeError\<close>, swallowed, and \<open>load_flow\<close> is called on it, where the lookup of
  \<open>rindex\<close> raises \<open>AttributeError\<close>; the constructor returns that for every such
  reference but \<open>None\<close>, which its own check stops first.
\<close>

theorem C10_malformed_reference:
  "(CHR ''.'' \<notin> set p \<longrightarrow>
      issubclass_Flow (PStr p) = Inl TypeError
      \<and> load_flow rt (PStr p) log = (Inl (ValueError ''substring not found''), log)
      \<and> StateFlowField_init rt vn n (PStr p) log
          = (Inl (ValueError ''substring not found''), log))
   \<and> (\<not> is_class r \<and> \<not> is_str r \<longrightarrow>
        issubclass_Flow r = Inl TypeError
        \<and> load_flow rt r log = (Inl AttributeError, log)
        \<and> resolve_flow rt r log = (Inl AttributeError, log)
        \<and> (r \<noteq> PNone \<longrightarrow> StateFlowField_init rt vn n r log = (Inl AttributeError, log)))"
proof (intro conjI impI)
  assume a: "CHR ''.'' \<notin> set p"
  show "issubclass_Flow (PStr p) = Inl TypeError" by simp
  from a have r: "rindex p CHR ''.'' = None" by (simp add: rindex_None)
  then show "load_flow rt (PStr p) log = (Inl (ValueError ''substring not found''), log)"
    by simp
  with r show "StateFlowField_init rt vn n (PStr p) log
          = (Inl (ValueError ''substring not found''), log)"
    by (simp add: StateFlowField_init_def resolve_flow_def)
next
  assume a: "\<not> is_class r \<and> \<not> is_str r"
  then show "issubclass_Flow r = Inl TypeError" by (cases r) simp_all
  from a show l: "load_flow rt r log = (Inl AttributeError, log)" by (cases r) simp_all
  from a show rf: "resolve_flow rt r log = (Inl AttributeError, log)"
    by (cases r) (simp_all add: resolve_flow_def)
  assume "r \<noteq> PNone"
  with rf show "StateFlowField_init rt vn n r log = (Inl AttributeError, log)"
    by (simp add: StateFlowField_init_def)
qed

theorem C10_malformed_reference_witness:
  "CHR ''.'' \<notin> set ''ArticleFlow''
   \<and> StateFlowField_init example_runtime None (Some ''state'') (PStr ''ArticleFlow'') []
       = (Inl (ValueError ''substring not found''), [])
   \<and> \<not> is_class (PObj ''5'') \<and> \<not> is_str (PObj ''5'') \<and> PObj ''5'' \<noteq> PNone
   \<and> issubclass_Flow (PObj ''5'') = Inl TypeError
   \<and> resolve_flow example_runtime (PObj ''5'') [] = (Inl AttributeError, [])
   \<and> StateFlowField_init example_runtime None (Some ''state'') (PObj ''5'') []
       = (Inl AttributeError, [])"
proof -
  have a: "CHR ''.'' \<notin> set ''ArticleFlow''" by simp
  have b: "\<not> is_class (PObj ''5'') \<and> \<not> is_str (PObj ''5'')" by simp
  have c: "PObj ''5'' \<noteq> PNone" by simp
  from C10_malformed_reference[of "''ArticleFlow''" example_runtime "[]" None "Some ''state''" "PObj ''5''"]
    a b c
  show ?thesis by blast
qed

section \<open>Choices and rendering\<close>

text \<open>
  C8, as the spec states it: for the Flow with the choice pairs \<open>("draft", "Draft")\<close>
  and \<open>("published", "Published")\<close>, the field's choice list starts with \<open>None\<close>
  labelled with the spec's unset label. It fails: the label in the source is
  \<open>'----'\<close>.
\<close>

theorem C8_counterexample:
  "state_choices article_flow = [(''draft'', ''Draft''), (''published'', ''Published'')]
   \<and> formfield example_field
       = Inr \<lparr>choices = [(PNone, ''----''), (PStr ''draft'', ''Draft''),
                          (PStr ''published'', ''Published'')],
              widget = StateWidget\<rparr>
   \<and> formfield example_field
       \<noteq> Inr \<lparr>choices = [(PNone, unset_label_spec), (PStr ''draft'', ''Draft''),
                          (PStr ''published'', ''Published'')],
              widget = StateWidget\<rparr>"
  by (simp add: formfield_def state_choices_def unset_label_spec_def ex_defs)

text \<open>
  C8, amended: the choice list the field hands to the rendering collaborator is the
  entry \<open>(None, '----')\<close> followed by \<open>Flow.state_choices()\<close> in order, with the widget
  \<open>StateWidget\<close>; for the choice pairs \<open>("draft", "Draft")\<close>, \<open>("published", "Published")\<close>
  it is exactly \<open>[(None, '----'), ("draft", "Draft"), ("published", "Published")]\<close>.
\<close>

theorem C8_formfield_choices:
  assumes "flow self = PFlowCls fl"
  shows "formfield self
           = Inr \<lparr>choices = (PNone, ''----'') # map (\<lambda>(t, l). (PStr t, l)) (state_choices fl),
                  widget = StateWidget\<rparr>
         \<and> (state_choices fl = [(''draft'', ''Draft''), (''published'', ''Published'')] \<longrightarrow>
              formfield self
                = Inr \<lparr>choices = [(PNone, ''----''), (PStr ''draft'', ''Draft''),
                                   (PStr ''published'', ''Published'')],
                       widget = StateWidget\<rparr>)"
  using assms by (simp add: formfield_def)

theorem C8_formfield_choices_witness:
  "flow example_field = PFlowCls article_flow
   \<and> state_choices article_flow = [(''draft'', ''Draft''), (''published'', ''Published'')]
   \<and> formfield example_field
       = Inr \<lparr>choices = [(PNone, ''----''), (PStr ''draft'', ''Draft''),
                          (PStr ''published'', ''Published'')],
              widget = StateWidget\<rparr>"
proof -
  have a: "flow example_field = PFlowCls article_flow" by (simp add: ex_defs)
  have b: "state_choices article_flow = [(''draft'', ''Draft''), (''published'', ''Published'')]"
    by (simp add: state_choices_def ex_defs)
  from C8_formfield_choices[OF a] a b show ?thesis by blast
qed

text \<open>
  C9: the rendering path should reduce a selected state to its token and mark the
  option with that token as selected, also for a state produced by the field's own
  inbound conversion. \<open>to_python\<close> produces state classes, and \<open>render_options\<close> keeps
  only the selected values that are instances of \<open>DjangoState\<close>: with the state class
  \<open>draft\<close> selected, as \<open>to_python\<close> returned it, no option is marked; with an instance
  of \<open>draft\<close> selected, the option with the token \<open>draft\<close> is.
\<close>

theorem C9_state_class_not_selected:
  \<open>to_python example_field (PStr ''draft'') = Inr (PStateCls draft)
   \<and> to_python example_field (PStateCls draft) = Inr (PStateCls draft)
   \<and> normalize_selected [PStateCls draft] = {}
   \<and> render_options []
        [(PNone, Label ''----''), (PStr ''draft'', Label ''Draft''),
         (PStr ''published'', Label ''Published'')]
        [PStateCls draft]
       = ''<option value="None">----</option>'' @ [CHR 0x0A]
         @ ''<option value="draft">Draft</option>'' @ [CHR 0x0A]
         @ ''<option value="published">Published</option>''
   \<and> render_options []
        [(PNone, Label ''----''), (PStr ''draft'', Label ''Draft''),
         (PStr ''published'', Label ''Published'')]
        [PStateObj draft]
       = ''<option value="None">----</option>'' @ [CHR 0x0A]
         @ ''<option value="draft" selected="selected">Draft</option>'' @ [CHR 0x0A]
         @ ''<option value="published">Published</option>''\<close>
  by (simp add: to_python_def render_options_def normalize_selected_def render_option_def
      selected_html_def force_unicode_def escape_def conditional_escape_def ex_defs)

end
